theory Spec2Isabelle
  imports Complex_Main
begin

section \<open>The PCR master-mix calculator\<close>

text \<open>
  A shallow embedding of \<^verbatim>\<open>PCRLogic\<close> in \<^verbatim>\<open>src/pcr_calculator.py\<close>: the rounding
  helper \<^verbatim>\<open>round_to_half\<close>, the engine \<^verbatim>\<open>calculate\<close> and the formatter
  \<^verbatim>\<open>format_text_report\<close>.

  Numbers. \<^verbatim>\<open>n_samples\<close> and \<^verbatim>\<open>mix_x\<close> are Python integers (\<open>int\<close>). Volumes and the
  excess percentage are Python floats; they are modelled as exact rationals (\<open>rat\<close>), so
  every statement below is about the arithmetic the source writes down, carried out
  exactly. The binary rounding error of IEEE doubles, overflow to infinity and NaN are
  outside the model.

  Dictionaries. Python dictionaries keep insertion order and the report iterates in that
  order, so a dictionary is an association list \<open>(string \<times> rat) list\<close>.

  Errors. Both \<^verbatim>\<open>raise ValueError(...)\<close> statements of \<^verbatim>\<open>calculate\<close> and the
  \<^verbatim>\<open>KeyError\<close> of the subscript \<^verbatim>\<open>tot[k]\<close> in the formatter are values of the type
  \<open>error\<close>; a function that can raise returns \<open>error + 'a\<close>.
\<close>

subsection \<open>Configuration constants\<close>

definition PER_SAMPLE_TOTAL :: rat where
  "PER_SAMPLE_TOTAL = 11"

definition PRIMER_PER :: rat where
  "PRIMER_PER = 1 / 2"

subsection \<open>Errors\<close>

datatype error = ValueError string | KeyError string

text \<open>The two failures of \<^verbatim>\<open>calculate\<close>, under the names the specification gives them.\<close>

definition InvalidMixFactor :: error where
  "InvalidMixFactor = ValueError ''Mix concentration must be 2 or 5.''"

definition NegativeDiluentVolume :: error where
  "NegativeDiluentVolume = ValueError ''Computed DDW volume is negative.''"

subsection \<open>Python built-ins used by the source\<close>

text \<open>
  \<^verbatim>\<open>round(x)\<close> with one argument returns the integer nearest to \<open>x\<close>; a value exactly
  half way between two integers goes to the even one (\<^verbatim>\<open>round(2.5) == 2\<close>,
  \<^verbatim>\<open>round(3.5) == 4\<close>, \<^verbatim>\<open>round(-2.5) == -2\<close>).
\<close>

definition py_round :: "rat \<Rightarrow> int" where
  "py_round x =
     (let f = \<lfloor>x\<rfloor>; d = x - of_int f
      in if d < 1 / 2 then f
         else if 1 / 2 < d then f + 1
         else if even f then f else f + 1)"

text \<open>\<^verbatim>\<open>str(i)\<close> for an integer: decimal digits, with a minus sign below zero.\<close>

definition digit_char :: "nat \<Rightarrow> char" where
  "digit_char d = ''0123456789'' ! d"

function str_nat :: "nat \<Rightarrow> string" where
  "str_nat n = (if n < 10 then [digit_char n] else str_nat (n div 10) @ [digit_char (n mod 10)])"
  by pat_completeness auto
termination
  by (relation "measure (\<lambda>n. n)") auto

declare str_nat.simps [simp del]

definition str_int :: "int \<Rightarrow> string" where
  "str_int i = (if i < 0 then CHR ''-'' # str_nat (nat (- i)) else str_nat (nat i))"

text \<open>
  The format specification \<^verbatim>\<open>.1f\<close>: fixed point with one digit after the point, the
  value rounded to the nearest tenth (ties to even), the sign taken from the value.
\<close>

definition fmt_1f :: "rat \<Rightarrow> string" where
  "fmt_1f x =
     (let q = nat (py_round (\<bar>x\<bar> * 10))
      in (if x < 0 then ''-'' else '''') @ str_nat (q div 10) @ ''.'' @ [digit_char (q mod 10)])"






subsection \<open>\<^verbatim>\<open>PCRLogic.round_to_half\<close>\<close>

definition round_to_half :: "rat \<Rightarrow> rat" where
  "round_to_half x = of_int (py_round (x * 2)) / 2"

subsection \<open>\<^verbatim>\<open>PCRLogic.calculate\<close>\<close>

text \<open>The returned tuple \<^verbatim>\<open>(per_sample, totals, grand_total)\<close>.\<close>

type_synonym amounts = "(string \<times> rat) list"
type_synonym calc_result = "amounts \<times> amounts \<times> rat"

text \<open>The local variables \<^verbatim>\<open>mix_vol\<close> and \<^verbatim>\<open>ddw_vol\<close> as functions of \<^verbatim>\<open>mix_x\<close>.\<close>

definition mix_vol :: "int \<Rightarrow> rat" where
  "mix_vol mix_x = 6 * (2 / of_int mix_x)"

definition ddw_vol :: "int \<Rightarrow> rat" where
  "ddw_vol mix_x = PER_SAMPLE_TOTAL - (mix_vol mix_x + 2 * PRIMER_PER)"

definition calculate :: "int \<Rightarrow> rat \<Rightarrow> int \<Rightarrow> error + calc_result" where
  "calculate n_samples excess_percent mix_x =
     (if mix_x \<noteq> 2 \<and> mix_x \<noteq> 5 then Inl (ValueError ''Mix concentration must be 2 or 5.'')
      else if ddw_vol mix_x < 0 then Inl (ValueError ''Computed DDW volume is negative.'')
      else
        let per_sample =
              [(''DDW'', ddw_vol mix_x),
               (''Mix ('' @ str_int mix_x @ ''X)'', mix_vol mix_x),
               (''Primer Fwd'', PRIMER_PER),
               (''Primer Rev'', PRIMER_PER)];
            factor = 1 + excess_percent / 100;
            totals = map (\<lambda>(k, v). (k, round_to_half (v * of_int n_samples * factor))) per_sample;
            grand_total = sum_list (map snd totals)
        in Inr (per_sample, totals, grand_total))"

subsection \<open>\<^verbatim>\<open>PCRLogic.format_text_report\<close>\<close>





subsection \<open>\<^verbatim>\<open>PCRGui.get_inputs\<close>\<close>


subsection \<open>The rounding rule as the specification words it\<close>



section \<open>Properties\<close>

subsection \<open>Rounding\<close>




lemma py_round_of_int: "py_round (of_int k) = k"
  by (simp add: py_round_def Let_def)












subsection \<open>The two supported mix factors, evaluated\<close>

lemma str_int_2: "str_int 2 = ''2''"
  by (simp add: str_int_def str_nat.simps digit_char_def)

lemma str_int_5: "str_int 5 = ''5''"
  by (simp add: str_int_def str_nat.simps digit_char_def)

lemma calculate_2:
  "calculate n e 2 =
     Inr ([(''DDW'', 4), (''Mix (2X)'', 6), (''Primer Fwd'', 1 / 2), (''Primer Rev'', 1 / 2)],
          [(''DDW'', round_to_half (4 * of_int n * (1 + e / 100))),
           (''Mix (2X)'', round_to_half (6 * of_int n * (1 + e / 100))),
           (''Primer Fwd'', round_to_half (1 / 2 * of_int n * (1 + e / 100))),
           (''Primer Rev'', round_to_half (1 / 2 * of_int n * (1 + e / 100)))],
          round_to_half (4 * of_int n * (1 + e / 100))
            + round_to_half (6 * of_int n * (1 + e / 100))
            + round_to_half (1 / 2 * of_int n * (1 + e / 100))
            + round_to_half (1 / 2 * of_int n * (1 + e / 100)))"
  by (simp add: calculate_def ddw_vol_def mix_vol_def PER_SAMPLE_TOTAL_def PRIMER_PER_def
      str_int_2 Let_def)

lemma calculate_5:
  "calculate n e 5 =
     Inr ([(''DDW'', 38 / 5), (''Mix (5X)'', 12 / 5), (''Primer Fwd'', 1 / 2), (''Primer Rev'', 1 / 2)],
          [(''DDW'', round_to_half (38 / 5 * of_int n * (1 + e / 100))),
           (''Mix (5X)'', round_to_half (12 / 5 * of_int n * (1 + e / 100))),
           (''Primer Fwd'', round_to_half (1 / 2 * of_int n * (1 + e / 100))),
           (''Primer Rev'', round_to_half (1 / 2 * of_int n * (1 + e / 100)))],
          round_to_half (38 / 5 * of_int n * (1 + e / 100))
            + round_to_half (12 / 5 * of_int n * (1 + e / 100))
            + round_to_half (1 / 2 * of_int n * (1 + e / 100))
            + round_to_half (1 / 2 * of_int n * (1 + e / 100)))"
  by (simp add: calculate_def ddw_vol_def mix_vol_def PER_SAMPLE_TOTAL_def PRIMER_PER_def
      str_int_5 Let_def)

lemma fmt_1f_11: "fmt_1f 11 = ''11.0''"
  by (simp add: fmt_1f_def py_round_def str_nat.simps digit_char_def)





subsection \<open>The formatter\<close>







section \<open>The claims\<close>

subsection \<open>Per-sample volumes\<close>



text \<open>
  C10. For a mix factor of 2 or 5 the four per-sample volumes add up to
  \<open>PER_SAMPLE_TOTAL = 11\<close>, so the constant printed in the total row of the report,
  \<open>11.0\<close>, is what the sum of the per-sample column prints as.
\<close>

theorem per_sample_sums_to_total:
  assumes "m = 2 \<or> m = 5"
  shows "\<exists>per tot g. calculate n e m = Inr (per, tot, g) \<and> length per = 4 \<and>
           sum_list (map snd per) = PER_SAMPLE_TOTAL \<and> PER_SAMPLE_TOTAL = 11 \<and>
           fmt_1f (sum_list (map snd per)) = ''11.0''"
  using assms
proof
  assume "m = 2"
  then show ?thesis by (simp add: calculate_2 PER_SAMPLE_TOTAL_def fmt_1f_11)
next
  assume "m = 5"
  then show ?thesis by (simp add: calculate_5 PER_SAMPLE_TOTAL_def fmt_1f_11)
qed

theorem per_sample_sums_to_total_witness:
  "((5::int) = 2 \<or> (5::int) = 5) \<and>
   (\<exists>per tot g. calculate 1 0 5 = Inr (per, tot, g) \<and> length per = 4 \<and>
      sum_list (map snd per) = PER_SAMPLE_TOTAL \<and> PER_SAMPLE_TOTAL = 11 \<and>
      fmt_1f (sum_list (map snd per)) = ''11.0'')"
  using per_sample_sums_to_total [of 5 1 0] by simp

subsection \<open>The two error branches\<close>

text \<open>
  C4. Whatever the sample count and the excess, a mix factor other than 2 and 5 makes
  \<open>calculate\<close> raise the mix-factor error; the value returned is the error alone, with no
  result beside it.
\<close>

theorem invalid_mix_factor_rejected:
  assumes "m \<noteq> 2" and "m \<noteq> 5"
  shows "calculate n e m = Inl InvalidMixFactor"
  using assms by (simp add: calculate_def InvalidMixFactor_def)

theorem invalid_mix_factor_rejected_witness:
  "(0::int) \<noteq> 2 \<and> (0::int) \<noteq> 5 \<and> calculate (-3) 10 0 = Inl InvalidMixFactor"
  using invalid_mix_factor_rejected [of 0 "-3" 10] by simp

text \<open>
  C6. \<open>calculate\<close> never raises the negative-diluent error: for the mix factors 2 and 5
  the diluent volume is not negative, and every other mix factor has already raised the
  mix-factor error.
\<close>

theorem negative_diluent_unreachable:
  "calculate n e m \<noteq> Inl NegativeDiluentVolume \<and> (m = 2 \<or> m = 5 \<longrightarrow> 0 \<le> ddw_vol m)"
proof -
  consider (two) "m = 2" | (five) "m = 5" | (other) "m \<noteq> 2" "m \<noteq> 5"
    by blast
  then show ?thesis
  proof cases
    case two
    then show ?thesis
      by (simp add: calculate_2 ddw_vol_def mix_vol_def PER_SAMPLE_TOTAL_def PRIMER_PER_def)
  next
    case five
    then show ?thesis
      by (simp add: calculate_5 ddw_vol_def mix_vol_def PER_SAMPLE_TOTAL_def PRIMER_PER_def)
  next
    case other
    then show ?thesis
      by (simp add: calculate_def NegativeDiluentVolume_def)
  qed
qed

theorem negative_diluent_unreachable_witness:
  "calculate 1 0 5 \<noteq> Inl NegativeDiluentVolume \<and> 0 \<le> ddw_vol 5"
  using negative_diluent_unreachable [of 1 0 5] by simp

subsection \<open>A worked scenario\<close>

text \<open>
  C7. Eight samples, ten percent excess, a 2X mix: per sample 4.0, 6.0, 0.5 and 0.5;
  scaled 35.0, 53.0, 4.5 and 4.5; grand total 97.0.
\<close>

theorem scenario_8_10_2:
  "calculate 8 10 2 =
     Inr ([(''DDW'', 4), (''Mix (2X)'', 6), (''Primer Fwd'', 1 / 2), (''Primer Rev'', 1 / 2)],
          [(''DDW'', 35), (''Mix (2X)'', 53), (''Primer Fwd'', 9 / 2), (''Primer Rev'', 9 / 2)],
          97)"
  by code_simp

subsection \<open>Scaled volumes and the grand total\<close>





subsection \<open>The rounding of each scaled volume\<close>




subsection \<open>No range validation in the engine\<close>




subsection \<open>The text report\<close>



end
